theory Spec2Isabelle
  imports Complex_Main
begin

section \<open>Gridworld MDP and value iteration (mdp.py)\<close>

text \<open>
  A shallow embedding of \<^verbatim>\<open>mdp.py\<close>. States are pairs of Python integers
  (unbounded, so \<^typ>\<open>int\<close>), actions are the strings the source dispatches on,
  dictionaries are partial maps and a missing key is the error value \<open>KeyError\<close>.
  Python floats are idealised as \<^typ>\<open>real\<close>: every arithmetic statement below is about
  exact real arithmetic, not about IEEE rounding.
\<close>

subsection \<open>Data model\<close>

type_synonym state = "int \<times> int"

type_synonym utility = "state \<rightharpoonup> real"

datatype error = KeyError state | ValueError

record MDP =
  nrows :: int
  ncols :: int
  states :: "state list"
  rewards :: "state \<rightharpoonup> real"
  terminals :: "state list"
  prob_forw :: real
  prob_side :: real
  reward_def :: real
  actions :: "string list"

text \<open>\<^verbatim>\<open>range(n)\<close> for a Python integer: \<open>0, ..., n - 1\<close>, empty when \<open>n \<le> 0\<close>.\<close>

definition py_range :: "int \<Rightarrow> int list" where
  "py_range n = [0..n - 1]"

text \<open>The nested loops of \<^verbatim>\<open>MDP.__init__\<close> that fill \<^verbatim>\<open>self.states\<close>.\<close>

definition init_states :: "int \<Rightarrow> int \<Rightarrow> state list" where
  "init_states num_rows num_cols =
     concat (map (\<lambda>i. map (\<lambda>j. (i + 1, j + 1)) (py_range num_rows)) (py_range num_cols))"

definition MDP_init ::
  "int \<Rightarrow> int \<Rightarrow> (state \<rightharpoonup> real) \<Rightarrow> state list \<Rightarrow> real \<Rightarrow> real \<Rightarrow> real \<Rightarrow> MDP" where
  "MDP_init num_rows num_cols rews terms p_forw p_side reward_default =
     \<lparr> nrows = num_rows, ncols = num_cols,
       states = init_states num_rows num_cols,
       rewards = rews, terminals = terms,
       prob_forw = p_forw, prob_side = p_side,
       reward_def = reward_default,
       actions = [''up'', ''right'', ''down'', ''left''] \<rparr>"

definition get_states :: "MDP \<Rightarrow> state list" where
  "get_states mdp = states mdp"

definition get_actions :: "MDP \<Rightarrow> state \<Rightarrow> string list" where
  "get_actions mdp s = actions mdp"

definition get_reward :: "MDP \<Rightarrow> state \<Rightarrow> real" where
  "get_reward mdp s = (case rewards mdp s of Some r \<Rightarrow> r | None \<Rightarrow> reward_def mdp)"

definition is_terminal :: "MDP \<Rightarrow> state \<Rightarrow> bool" where
  "is_terminal mdp s = (s \<in> set (terminals mdp))"

subsection \<open>Transition model\<close>

text \<open>The four candidate successors computed at the top of \<^verbatim>\<open>get_transition_prob\<close>.\<close>

definition succ_up :: "MDP \<Rightarrow> state \<Rightarrow> state" where
  "succ_up mdp s = (fst s, min (nrows mdp) (snd s + 1))"

definition succ_right :: "MDP \<Rightarrow> state \<Rightarrow> state" where
  "succ_right mdp s = (min (ncols mdp) (fst s + 1), snd s)"

definition succ_down :: "MDP \<Rightarrow> state \<Rightarrow> state" where
  "succ_down mdp s = (fst s, max 1 (snd s - 1))"

definition succ_left :: "MDP \<Rightarrow> state \<Rightarrow> state" where
  "succ_left mdp s = (max 1 (fst s - 1), snd s)"

text \<open>
  \<^verbatim>\<open>defaultdict(float)\<close>: \<^verbatim>\<open>d[k] = v\<close> stores, \<^verbatim>\<open>d[k] += v\<close> reads a missing key
  as \<open>0.0\<close>, and \<^verbatim>\<open>d.get(k, 0.0)\<close> reads without inserting.
\<close>

definition dd_set :: "(state \<rightharpoonup> real) \<Rightarrow> state \<Rightarrow> real \<Rightarrow> (state \<rightharpoonup> real)" where
  "dd_set d k v = d(k \<mapsto> v)"

definition dd_add :: "(state \<rightharpoonup> real) \<Rightarrow> state \<Rightarrow> real \<Rightarrow> (state \<rightharpoonup> real)" where
  "dd_add d k v = d(k \<mapsto> (case d k of None \<Rightarrow> 0 | Some w \<Rightarrow> w) + v)"

definition dd_get :: "(state \<rightharpoonup> real) \<Rightarrow> state \<Rightarrow> real \<Rightarrow> real" where
  "dd_get d k dflt = (case d k of None \<Rightarrow> dflt | Some w \<Rightarrow> w)"

text \<open>The \<^verbatim>\<open>if\<close>/\<^verbatim>\<open>elif\<close> chain on the action string; an unknown action leaves the table empty.\<close>

definition succ_prob :: "MDP \<Rightarrow> state \<Rightarrow> string \<Rightarrow> (state \<rightharpoonup> real)" where
  "succ_prob mdp s a =
     (if a = ''up'' then
        dd_add (dd_add (dd_set Map.empty (succ_up mdp s) (prob_forw mdp))
                  (succ_right mdp s) (prob_side mdp)) (succ_left mdp s) (prob_side mdp)
      else if a = ''right'' then
        dd_add (dd_add (dd_set Map.empty (succ_right mdp s) (prob_forw mdp))
                  (succ_up mdp s) (prob_side mdp)) (succ_down mdp s) (prob_side mdp)
      else if a = ''down'' then
        dd_add (dd_add (dd_set Map.empty (succ_down mdp s) (prob_forw mdp))
                  (succ_right mdp s) (prob_side mdp)) (succ_left mdp s) (prob_side mdp)
      else if a = ''left'' then
        dd_add (dd_add (dd_set Map.empty (succ_left mdp s) (prob_forw mdp))
                  (succ_up mdp s) (prob_side mdp)) (succ_down mdp s) (prob_side mdp)
      else Map.empty)"

definition get_transition_prob :: "MDP \<Rightarrow> state \<Rightarrow> string \<Rightarrow> state \<Rightarrow> real" where
  "get_transition_prob mdp s a successor_state =
     (if is_terminal mdp s then 0
      else dd_get (succ_prob mdp s a) successor_state 0)"

subsection \<open>Expected utilities per action\<close>

text \<open>\<^verbatim>\<open>utility[k]\<close> on a plain dictionary raises \<^verbatim>\<open>KeyError\<close> for a missing key.\<close>

definition dict_get :: "utility \<Rightarrow> state \<Rightarrow> error + real" where
  "dict_get u k = (case u k of None \<Rightarrow> Inl (KeyError k) | Some v \<Rightarrow> Inr v)"

text \<open>The inner loop of \<^verbatim>\<open>get_transition_probs\<close>: \<^verbatim>\<open>sum += P(state, a, succs) * utility[succs]\<close>.\<close>

fun expected_sum :: "MDP \<Rightarrow> state \<Rightarrow> string \<Rightarrow> utility \<Rightarrow> state list \<Rightarrow> real \<Rightarrow> error + real" where
  "expected_sum mdp s a u [] acc = Inr acc"
| "expected_sum mdp s a u (succs # rest) acc =
     (case dict_get u succs of
        Inl e \<Rightarrow> Inl e
      | Inr v \<Rightarrow> expected_sum mdp s a u rest (acc + get_transition_prob mdp s a succs * v))"

text \<open>The outer loop over the actions, appending one sum per action.\<close>

fun action_sums :: "MDP \<Rightarrow> state \<Rightarrow> utility \<Rightarrow> string list \<Rightarrow> real list \<Rightarrow> error + real list" where
  "action_sums mdp s u [] transition_probs = Inr transition_probs"
| "action_sums mdp s u (a # rest) transition_probs =
     (case expected_sum mdp s a u (get_states mdp) 0 of
        Inl e \<Rightarrow> Inl e
      | Inr sm \<Rightarrow> action_sums mdp s u rest (transition_probs @ [sm]))"

definition get_transition_probs :: "MDP \<Rightarrow> state \<Rightarrow> utility \<Rightarrow> error + real list" where
  "get_transition_probs mdp s u = action_sums mdp s u (get_actions mdp s) []"

subsection \<open>Value iteration\<close>

text \<open>Python's \<^verbatim>\<open>max\<close> of a list: \<^verbatim>\<open>ValueError\<close> on the empty list.\<close>

fun py_max :: "real list \<Rightarrow> error + real" where
  "py_max [] = Inl ValueError"
| "py_max (x # xs) = Inr (fold max xs x)"

text \<open>
  The \<^verbatim>\<open>for state in mdp.get_states()\<close> loop of one sweep. \<open>u\<close> is \<^verbatim>\<open>utility\<close>, the
  copy taken at the start of the sweep; the loop state is \<^verbatim>\<open>(utility_step, delta)\<close>.
\<close>

fun sweep :: "MDP \<Rightarrow> real \<Rightarrow> utility \<Rightarrow> state list \<Rightarrow> utility \<times> real \<Rightarrow> error + (utility \<times> real)" where
  "sweep mdp gamma u [] (utility_step, delta) = Inr (utility_step, delta)"
| "sweep mdp gamma u (s # rest) (utility_step, delta) =
     (case get_transition_probs mdp s u of
        Inl e \<Rightarrow> Inl e
      | Inr ps \<Rightarrow>
     (case py_max ps of
        Inl e \<Rightarrow> Inl e
      | Inr m \<Rightarrow>
     (let utility_step' = utility_step(s \<mapsto> get_reward mdp s + gamma * m) in
     (case dict_get utility_step' s of
        Inl e \<Rightarrow> Inl e
      | Inr new \<Rightarrow>
     (case dict_get u s of
        Inl e \<Rightarrow> Inl e
      | Inr old \<Rightarrow>
        sweep mdp gamma u rest
          (utility_step', if \<bar>new - old\<bar> > delta then \<bar>new - old\<bar> else delta))))))"

text \<open>\<^verbatim>\<open>{s: 0 for s in mdp.get_states()}\<close>\<close>

definition init_utility :: "MDP \<Rightarrow> utility" where
  "init_utility mdp = fold (\<lambda>s d. d(s \<mapsto> 0)) (get_states mdp) Map.empty"

text \<open>
  The \<^verbatim>\<open>while True\<close> loop. The loop may run forever, which is the value \<open>None\<close>;
  \<open>Some (Inl e)\<close> is a raised exception and \<open>Some (Inr u)\<close> the returned dictionary.
  The source returns \<^verbatim>\<open>utility\<close>, the copy made at the start of the last sweep.
\<close>

partial_function (option) value_iteration_loop ::
  "MDP \<Rightarrow> real \<Rightarrow> real \<Rightarrow> utility \<Rightarrow> (error + utility) option" where
  "value_iteration_loop mdp gamma epsilon utility_step =
     (case sweep mdp gamma utility_step (get_states mdp) (utility_step, 0) of
        Inl e \<Rightarrow> Some (Inl e)
      | Inr (utility_step', delta) \<Rightarrow>
          if delta < epsilon then Some (Inr utility_step)
          else value_iteration_loop mdp gamma epsilon utility_step')"

definition value_iteration :: "MDP \<Rightarrow> real \<Rightarrow> real \<Rightarrow> (error + utility) option" where
  "value_iteration mdp gamma epsilon = value_iteration_loop mdp gamma epsilon (init_utility mdp)"

subsection \<open>The two configurations used as concrete inputs\<close>

text \<open>The module's own example: \<^verbatim>\<open>MDP(3, 2, {(1, 3): -2, (2, 3): 2}, [(1, 3), (2, 3)], .8, .1)\<close>.\<close>

definition gridworld :: MDP where
  "gridworld = MDP_init 3 2 [(1, 3) \<mapsto> - 2, (2, 3) \<mapsto> 2] [(1, 3), (2, 3)] (8 / 10) (1 / 10) 0"

text \<open>One row, two columns, terminal \<open>(2, 1)\<close> with reward 10, deterministic moves.\<close>

definition corridor :: MDP where
  "corridor = MDP_init 1 2 [(2, 1) \<mapsto> 10] [(2, 1)] 1 0 0"

subsection \<open>The Bellman backup as the specification words it\<close>

text \<open>
  The expected utility of an action is \<open>\<Sum>s'. P(s' | s, a) * U(s')\<close> over the grid's states,
  and the backup is \<open>R(s) + \<gamma> * max\<^sub>a\<close> of it. Here \<open>U\<close> is a total function; the
  dictionary of the code is compared with it on the keys it holds.
\<close>

definition expected_utility :: "MDP \<Rightarrow> (state \<Rightarrow> real) \<Rightarrow> state \<Rightarrow> string \<Rightarrow> real" where
  "expected_utility mdp U s a =
     (\<Sum>s'\<leftarrow>get_states mdp. get_transition_prob mdp s a s' * U s')"

definition bellman_backup :: "MDP \<Rightarrow> real \<Rightarrow> (state \<Rightarrow> real) \<Rightarrow> state \<Rightarrow> real" where
  "bellman_backup mdp gamma U s =
     get_reward mdp s + gamma * Max (expected_utility mdp U s ` set (get_actions mdp s))"

section \<open>Properties\<close>

subsection \<open>The state enumeration\<close>

lemma map_succ_upto: "map (\<lambda>i. i + 1) [0..n - 1] = [1..n]"
proof (rule nth_equalityI)
  show "length (map (\<lambda>i. i + 1) [0..n - 1]) = length [1..n]" by simp
next
  fix i assume "i < length (map (\<lambda>i. i + 1) [0..n - 1])"
  then show "map (\<lambda>i. i + 1) [0..n - 1] ! i = [1..n] ! i" by simp
qed

lemma init_states_product:
  "init_states nr nc = concat (map (\<lambda>x. map (\<lambda>y. (x, y)) [1..nr]) [1..nc])"
proof -
  have a: "map (\<lambda>j. (i + 1, j + 1)) [0..nr - 1] = map (\<lambda>y. (i + 1, y)) [1..nr]" for i :: int
    by (simp add: map_succ_upto [symmetric] comp_def)
  have "init_states nr nc = concat (map ((\<lambda>x. map (\<lambda>y. (x, y)) [1..nr]) \<circ> (\<lambda>i. i + 1)) [0..nc - 1])"
    unfolding init_states_def py_range_def a by (simp add: comp_def)
  also have "\<dots> = concat (map (\<lambda>x. map (\<lambda>y. (x, y)) [1..nr]) (map (\<lambda>i. i + 1) [0..nc - 1]))"
    by (simp only: map_map)
  finally show ?thesis by (simp only: map_succ_upto)
qed

lemma set_init_states: "set (init_states nr nc) = {1..nc} \<times> {1..nr}"
  by (auto simp: init_states_product)

lemma distinct_init_states: "distinct (init_states nr nc)"
  by (simp add: init_states_product product_concat_map [symmetric] distinct_product)

lemma get_states_init [simp]:
  "get_states (MDP_init nr nc rews terms pf ps rd) = init_states nr nc"
  by (simp add: get_states_def MDP_init_def)

lemma MDP_init_fields [simp]:
  "nrows (MDP_init nr nc rews terms pf ps rd) = nr"
  "ncols (MDP_init nr nc rews terms pf ps rd) = nc"
  "rewards (MDP_init nr nc rews terms pf ps rd) = rews"
  "terminals (MDP_init nr nc rews terms pf ps rd) = terms"
  "prob_forw (MDP_init nr nc rews terms pf ps rd) = pf"
  "prob_side (MDP_init nr nc rews terms pf ps rd) = ps"
  "reward_def (MDP_init nr nc rews terms pf ps rd) = rd"
  "actions (MDP_init nr nc rews terms pf ps rd) = [''up'', ''right'', ''down'', ''left'']"
  by (simp_all add: MDP_init_def)

lemma gridworld_states: "init_states 3 2 = [(1, 1), (1, 2), (1, 3), (2, 1), (2, 2), (2, 3)]"
  by (simp add: init_states_def py_range_def upto_rec1)

lemma corridor_states: "init_states 1 2 = [(1, 1), (2, 1)]"
  by (simp add: init_states_def py_range_def upto_rec1)

text \<open>
  \<^bold>\<open>C10\<close>. \<^verbatim>\<open>get_states\<close> of a constructed MDP is the list of all \<open>(x, y)\<close> with
  \<open>x\<close> from 1 to \<open>num_cols\<close> in the outer loop and \<open>y\<close> from 1 to \<open>num_rows\<close> in the inner
  one: as a set the Cartesian product \<open>{1..num_cols} \<times> {1..num_rows}\<close>, each pair once.
\<close>

theorem get_states_column_major:
  "get_states (MDP_init nr nc rews terms pf ps rd)
     = concat (map (\<lambda>x. map (\<lambda>y. (x, y)) [1..nr]) [1..nc])
   \<and> set (get_states (MDP_init nr nc rews terms pf ps rd)) = {1..nc} \<times> {1..nr}
   \<and> distinct (get_states (MDP_init nr nc rews terms pf ps rd))"
  by (simp add: init_states_product [symmetric] set_init_states distinct_init_states)

theorem get_states_column_major_witness:
  "get_states gridworld = [(1, 1), (1, 2), (1, 3), (2, 1), (2, 2), (2, 3)]
   \<and> set (get_states gridworld) = {1..2} \<times> {1..3}"
proof -
  note t = get_states_column_major
    [of 3 2 "[(1, 3) \<mapsto> - 2, (2, 3) \<mapsto> 2]" "[(1, 3), (2, 3)]" "8 / 10" "1 / 10" 0,
     unfolded get_states_init gridworld_states]
  have s: "get_states gridworld = [(1, 1), (1, 2), (1, 3), (2, 1), (2, 2), (2, 3)]"
    by (simp add: gridworld_def gridworld_states)
  show ?thesis unfolding s using t by blast
qed

subsection \<open>Neighbours and transition probabilities\<close>


text \<open>
  \<^bold>\<open>C8\<close>. For a state \<open>(x, y)\<close> of the grid the four candidate successors are the
  wall-clamped neighbours, each of them is a state of the grid, and a move into a
  boundary gives the state itself (otherwise the adjacent cell).
\<close>

theorem wall_clamped_neighbours:
  assumes "(x, y) \<in> set (get_states (MDP_init nr nc rews terms pf ps rd))"
  shows "succ_up (MDP_init nr nc rews terms pf ps rd) (x, y) = (x, min nr (y + 1))
       \<and> succ_down (MDP_init nr nc rews terms pf ps rd) (x, y) = (x, max 1 (y - 1))
       \<and> succ_right (MDP_init nr nc rews terms pf ps rd) (x, y) = (min nc (x + 1), y)
       \<and> succ_left (MDP_init nr nc rews terms pf ps rd) (x, y) = (max 1 (x - 1), y)
       \<and> set [succ_up (MDP_init nr nc rews terms pf ps rd) (x, y),
               succ_down (MDP_init nr nc rews terms pf ps rd) (x, y),
               succ_right (MDP_init nr nc rews terms pf ps rd) (x, y),
               succ_left (MDP_init nr nc rews terms pf ps rd) (x, y)]
           \<subseteq> set (get_states (MDP_init nr nc rews terms pf ps rd))
       \<and> (if y = nr then succ_up (MDP_init nr nc rews terms pf ps rd) (x, y) = (x, y)
           else succ_up (MDP_init nr nc rews terms pf ps rd) (x, y) = (x, y + 1))
       \<and> (if y = 1 then succ_down (MDP_init nr nc rews terms pf ps rd) (x, y) = (x, y)
           else succ_down (MDP_init nr nc rews terms pf ps rd) (x, y) = (x, y - 1))
       \<and> (if x = nc then succ_right (MDP_init nr nc rews terms pf ps rd) (x, y) = (x, y)
           else succ_right (MDP_init nr nc rews terms pf ps rd) (x, y) = (x + 1, y))
       \<and> (if x = 1 then succ_left (MDP_init nr nc rews terms pf ps rd) (x, y) = (x, y)
           else succ_left (MDP_init nr nc rews terms pf ps rd) (x, y) = (x - 1, y))"
  using assms
  by (auto simp: set_init_states succ_up_def succ_right_def succ_down_def succ_left_def)

theorem wall_clamped_neighbours_witness:
  "(2, 3) \<in> set (get_states gridworld)
   \<and> succ_up gridworld (2, 3) = (2, 3) \<and> succ_right gridworld (2, 3) = (2, 3)
   \<and> succ_down gridworld (2, 3) = (2, 2) \<and> succ_left gridworld (2, 3) = (1, 3)"
  using wall_clamped_neighbours
    [of 2 3 3 2 "[(1, 3) \<mapsto> - 2, (2, 3) \<mapsto> 2]" "[(1, 3), (2, 3)]" "8 / 10" "1 / 10" 0]
  by (simp add: gridworld_def gridworld_states)

text \<open>
  \<^bold>\<open>C6\<close>. From a terminal state every action reaches every successor with
  probability 0.
\<close>

theorem terminal_absorption:
  "is_terminal mdp s \<Longrightarrow> get_transition_prob mdp s a s' = 0"
  by (simp add: get_transition_prob_def)

theorem terminal_absorption_witness:
  "is_terminal gridworld (2, 3) \<and> get_transition_prob gridworld (2, 3) ''down'' (2, 2) = 0"
  using terminal_absorption [of gridworld "(2, 3)" "''down''" "(2, 2)"]
  by (simp add: is_terminal_def gridworld_def)











subsection \<open>Expected utilities and one sweep\<close>

text \<open>
  When the dictionary holds a value \<open>U x\<close> for every state of the grid, no lookup raises and
  the loops compute the sums and the maximum of the mathematical definition.
\<close>

lemma expected_sum_eq:
  assumes "\<forall>x\<in>set xs. u x = Some (U x)"
  shows "expected_sum mdp s a u xs acc
           = Inr (acc + (\<Sum>x\<leftarrow>xs. get_transition_prob mdp s a x * U x))"
  using assms by (induction xs arbitrary: acc) (simp_all add: dict_get_def add.assoc)

lemma action_sums_eq:
  assumes "\<forall>x\<in>set (get_states mdp). u x = Some (U x)"
  shows "action_sums mdp s u as acc = Inr (acc @ map (expected_utility mdp U s) as)"
  by (induction as arbitrary: acc)
     (simp_all add: expected_sum_eq [OF assms] expected_utility_def)

lemma get_transition_probs_eq:
  assumes "\<forall>x\<in>set (get_states mdp). u x = Some (U x)"
  shows "get_transition_probs mdp s u = Inr (map (expected_utility mdp U s) (get_actions mdp s))"
  by (simp add: get_transition_probs_def action_sums_eq [OF assms])

lemma py_max_eq: "xs \<noteq> [] \<Longrightarrow> py_max xs = Inr (Max (set xs))"
  by (cases xs) (simp_all add: Max.set_eq_fold [symmetric])

lemma backup_eq:
  assumes "\<forall>x\<in>set (get_states mdp). u x = Some (U x)" and "actions mdp \<noteq> []"
  shows "py_max (map (expected_utility mdp U s) (get_actions mdp s))
           = Inr (Max (expected_utility mdp U s ` set (get_actions mdp s)))"
  using assms(2) by (simp add: py_max_eq get_actions_def)

text \<open>
  The loop state after the states \<open>xs\<close>: every new value is the backup of the snapshot,
  and \<open>delta\<close> is the running maximum of the changes.
\<close>

lemma sweep_eq:
  assumes keys: "\<forall>x\<in>set (get_states mdp). u x = Some (U x)"
    and acts: "actions mdp \<noteq> []"
    and sub: "set xs \<subseteq> set (get_states mdp)"
  shows "sweep mdp gamma u xs (us, d)
           = Inr (fold (\<lambda>s m. m(s \<mapsto> bellman_backup mdp gamma U s)) xs us,
                  fold (\<lambda>s d. max d \<bar>bellman_backup mdp gamma U s - U s\<bar>) xs d)"
  using sub
proof (induction xs arbitrary: us d)
  case Nil
  then show ?case by simp
next
  case (Cons x xs)
  from Cons.prems have x: "u x = Some (U x)" and xs: "set xs \<subseteq> set (get_states mdp)"
    using keys by auto
  have m: "(if d < \<bar>bellman_backup mdp gamma U x - U x\<bar> then \<bar>bellman_backup mdp gamma U x - U x\<bar> else d)
             = max d \<bar>bellman_backup mdp gamma U x - U x\<bar>"
    by (simp add: max_def)
  show ?case
    by (simp add: get_transition_probs_eq [OF keys] backup_eq [OF keys acts] dict_get_def x
        bellman_backup_def [symmetric] m Cons.IH [OF xs])
qed

lemma fold_upd_apply:
  "fold (\<lambda>s m. m(s \<mapsto> f s)) xs us k = (if k \<in> set xs then Some (f k) else us k)"
  by (induction xs arbitrary: us) auto

lemma fold_max_eq:
  fixes d :: real
  shows "fold (\<lambda>s d. max d (h s)) xs d = Max (insert d (h ` set xs))"
proof (induction xs arbitrary: d)
  case Nil
  then show ?case by simp
next
  case (Cons x xs)
  have "Max (insert (max d (h x)) (h ` set xs)) = Max (insert d (insert (h x) (h ` set xs)))"
    by (cases "set xs = {}") (simp_all add: max.assoc)
  with Cons show ?case by simp
qed




lemma sweep_states:
  assumes keys: "\<forall>x\<in>set (get_states mdp). u x = Some (U x)"
    and acts: "actions mdp \<noteq> []"
  shows "sweep mdp gamma u (get_states mdp) (u, 0)
           = Inr (\<lambda>s. if s \<in> set (get_states mdp) then Some (bellman_backup mdp gamma U s) else u s,
                  Max (insert 0 ((\<lambda>s. \<bar>bellman_backup mdp gamma U s - U s\<bar>) ` set (get_states mdp))))"
proof -
  have "fold (\<lambda>s m. m(s \<mapsto> bellman_backup mdp gamma U s)) (get_states mdp) u
          = (\<lambda>s. if s \<in> set (get_states mdp) then Some (bellman_backup mdp gamma U s) else u s)"
    by (rule ext) (rule fold_upd_apply)
  then show ?thesis
    by (simp add: sweep_eq [OF keys acts subset_refl] fold_max_eq)
qed


lemma expected_utility_terminal:
  "is_terminal mdp t \<Longrightarrow> expected_utility mdp U t a = 0"
  by (simp add: expected_utility_def get_transition_prob_def)

lemma bellman_backup_terminal:
  assumes "is_terminal mdp t" and "actions mdp \<noteq> []"
  shows "bellman_backup mdp gamma U t = get_reward mdp t"
proof -
  have "expected_utility mdp U t = (\<lambda>_. 0)"
    using assms(1) by (intro ext) (rule expected_utility_terminal)
  with assms(2) show ?thesis
    by (simp add: bellman_backup_def get_actions_def image_constant_conv)
qed



subsection \<open>The loop\<close>



lemma init_utility_apply:
  "init_utility mdp k = (if k \<in> set (get_states mdp) then Some 0 else None)"
  by (simp add: init_utility_def fold_upd_apply)


subsection \<open>The corridor, run by hand\<close>

lemma corridor_get_states: "get_states corridor = [(1, 1), (2, 1)]"
  by (simp add: corridor_def corridor_states)

lemma corridor_actions: "actions corridor = [''up'', ''right'', ''down'', ''left'']"
  by (simp add: corridor_def)

lemma corridor_expected_utility:
  "expected_utility corridor U (1, 1) ''up'' = U (1, 1)"
  "expected_utility corridor U (1, 1) ''right'' = U (2, 1)"
  "expected_utility corridor U (1, 1) ''down'' = U (1, 1)"
  "expected_utility corridor U (1, 1) ''left'' = U (1, 1)"
  by (simp_all add: expected_utility_def corridor_get_states get_transition_prob_def
      is_terminal_def succ_prob_def dd_set_def dd_add_def dd_get_def
      succ_up_def succ_right_def succ_down_def succ_left_def corridor_def corridor_states)

lemma corridor_backup_start:
  "bellman_backup corridor gamma U (1, 1) = gamma * max (U (1, 1)) (U (2, 1))"
  by (simp add: bellman_backup_def get_actions_def corridor_actions corridor_expected_utility
      get_reward_def corridor_def [THEN arg_cong, of rewards] corridor_def [THEN arg_cong, of reward_def] max.commute)

lemma corridor_backup_goal:
  "bellman_backup corridor gamma U (2, 1) = 10"
  using bellman_backup_terminal [of corridor "(2, 1)" gamma U]
  by (simp add: is_terminal_def corridor_def get_reward_def)

lemma corridor_sweep:
  assumes "u (1, 1) = Some a" and "u (2, 1) = Some b"
  shows "sweep corridor gamma u (get_states corridor) (u, 0)
           = Inr (u((1, 1) \<mapsto> gamma * max a b, (2, 1) \<mapsto> 10),
                  max (max 0 \<bar>gamma * max a b - a\<bar>) \<bar>10 - b\<bar>)"
proof -
  define U where "U = (\<lambda>s :: state. if s = (1, 1) then a else b)"
  have keys: "\<forall>x\<in>set (get_states corridor). u x = Some (U x)"
    using assms by (simp add: corridor_get_states U_def)
  have acts: "actions corridor \<noteq> []" by (simp add: corridor_actions)
  show ?thesis
    unfolding sweep_eq [OF keys acts subset_refl]
    by (simp add: corridor_get_states corridor_backup_start corridor_backup_goal U_def)
qed

lemma two_key_update:
  "[k1 \<mapsto> a, k2 \<mapsto> b](k1 \<mapsto> c, k2 \<mapsto> d) = [k1 \<mapsto> c, k2 \<mapsto> d]"
  by (rule ext) simp

lemma corridor_init: "init_utility corridor = [(1, 1) \<mapsto> 0, (2, 1) \<mapsto> 0]"
  by (simp add: init_utility_def corridor_get_states)

lemma corridor_sweep_dict:
  "sweep corridor gamma [(1, 1) \<mapsto> a, (2, 1) \<mapsto> b] (get_states corridor)
     ([(1, 1) \<mapsto> a, (2, 1) \<mapsto> b], 0)
   = Inr ([(1, 1) \<mapsto> gamma * max a b, (2, 1) \<mapsto> 10],
          max (max 0 \<bar>gamma * max a b - a\<bar>) \<bar>10 - b\<bar>)"
  by (subst corridor_sweep [of _ a b]) (simp_all only: two_key_update, simp_all)

lemma corridor_loop_step:
  "value_iteration_loop corridor gamma epsilon [(1, 1) \<mapsto> a, (2, 1) \<mapsto> b]
   = (if max (max 0 \<bar>gamma * max a b - a\<bar>) \<bar>10 - b\<bar> < epsilon
      then Some (Inr [(1, 1) \<mapsto> a, (2, 1) \<mapsto> b])
      else value_iteration_loop corridor gamma epsilon [(1, 1) \<mapsto> gamma * max a b, (2, 1) \<mapsto> 10])"
  by (subst value_iteration_loop.simps) (simp only: corridor_sweep_dict sum.case prod.case)

lemma corridor_run_small:
  assumes "0 < epsilon" and "epsilon \<le> 9"
  shows "value_iteration corridor (9 / 10) epsilon = Some (Inr [(1, 1) \<mapsto> 9, (2, 1) \<mapsto> 10])"
proof -
  have "value_iteration corridor (9 / 10) epsilon
          = value_iteration_loop corridor (9 / 10) epsilon [(1, 1) \<mapsto> 0, (2, 1) \<mapsto> 10]"
    unfolding value_iteration_def corridor_init
    using assms by (subst corridor_loop_step) simp
  also have "\<dots> = value_iteration_loop corridor (9 / 10) epsilon [(1, 1) \<mapsto> 9, (2, 1) \<mapsto> 10]"
    using assms by (subst corridor_loop_step) simp
  also have "\<dots> = Some (Inr [(1, 1) \<mapsto> 9, (2, 1) \<mapsto> 10])"
    using assms by (subst corridor_loop_step) simp
  finally show ?thesis .
qed

lemma corridor_run_middle:
  assumes "9 < epsilon" and "epsilon \<le> 10"
  shows "value_iteration corridor (9 / 10) epsilon = Some (Inr [(1, 1) \<mapsto> 0, (2, 1) \<mapsto> 10])"
proof -
  have "value_iteration corridor (9 / 10) epsilon
          = value_iteration_loop corridor (9 / 10) epsilon [(1, 1) \<mapsto> 0, (2, 1) \<mapsto> 10]"
    unfolding value_iteration_def corridor_init
    using assms by (subst corridor_loop_step) simp
  also have "\<dots> = Some (Inr [(1, 1) \<mapsto> 0, (2, 1) \<mapsto> 10])"
    using assms by (subst corridor_loop_step) simp
  finally show ?thesis .
qed


subsection \<open>Termination\<close>










subsection \<open>One sweep, and queries outside the grid\<close>

text \<open>
  \<^bold>\<open>C4\<close>. One sweep started from the snapshot \<open>u\<close> (holding \<open>U s\<close> for every state)
  does not raise; it stores \<open>reward(s) + gamma * max\<^sub>a \<Sum>s'. P(s' | s, a) * U(s')\<close> for every
  state of the grid, read from the snapshot only, leaves other keys as they were, and
  its \<open>delta\<close> is the largest change (0 when there is none).
\<close>

theorem sweep_is_bellman_backup:
  assumes "\<forall>s\<in>set (get_states mdp). u s = Some (U s)"
    and "actions mdp \<noteq> []"
  shows "\<exists>u' d. sweep mdp gamma u (get_states mdp) (u, 0) = Inr (u', d)
           \<and> (\<forall>s. u' s = (if s \<in> set (get_states mdp)
                            then Some (bellman_backup mdp gamma U s) else u s))
           \<and> d = Max (insert 0 ((\<lambda>s. \<bar>bellman_backup mdp gamma U s - U s\<bar>) ` set (get_states mdp)))"
  by (simp add: sweep_states [OF assms])

theorem sweep_is_bellman_backup_witness:
  "actions corridor \<noteq> []
   \<and> (\<exists>u' d. sweep corridor (9 / 10) [(1, 1) \<mapsto> 0, (2, 1) \<mapsto> 10] (get_states corridor)
               ([(1, 1) \<mapsto> 0, (2, 1) \<mapsto> 10], 0) = Inr (u', d)
             \<and> u' (1, 1) = Some 9 \<and> u' (2, 1) = Some 10 \<and> d = 9)"
proof -
  let ?U = "\<lambda>s :: state. if s = (1, 1) then 0 else (10 :: real)"
  have keys: "\<forall>s\<in>set (get_states corridor). [(1, 1) \<mapsto> 0, (2, 1) \<mapsto> 10] s = Some (?U s)"
    by (simp add: corridor_get_states)
  have acts: "actions corridor \<noteq> []" by (simp add: corridor_actions)
  from sweep_is_bellman_backup [OF keys acts, of "9 / 10"]
  obtain u' d where
    sw: "sweep corridor (9 / 10) [(1, 1) \<mapsto> 0, (2, 1) \<mapsto> 10] (get_states corridor)
           ([(1, 1) \<mapsto> 0, (2, 1) \<mapsto> 10], 0) = Inr (u', d)"
    and v: "\<forall>s. u' s = (if s \<in> set (get_states corridor)
                            then Some (bellman_backup corridor (9 / 10) ?U s)
                            else [(1, 1) \<mapsto> 0, (2, 1) \<mapsto> 10] s)"
    and d: "d = Max (insert 0 ((\<lambda>s. \<bar>bellman_backup corridor (9 / 10) ?U s - ?U s\<bar>)
                                ` set (get_states corridor)))"
    by blast
  from v have "u' (1, 1) = Some 9" and "u' (2, 1) = Some 10"
    by (simp_all add: corridor_get_states corridor_backup_start corridor_backup_goal)
  moreover have "d = 9"
    unfolding d by (simp add: corridor_get_states corridor_backup_start corridor_backup_goal)
  ultimately show ?thesis using sw acts by blast
qed

text \<open>
  \<^bold>\<open>C9\<close>. For a state outside the grid no operation of the model raises:
  \<^verbatim>\<open>get_reward\<close> gives the default when the state has no override, \<^verbatim>\<open>is_terminal\<close> is
  false when the state is not listed, \<^verbatim>\<open>get_transition_prob\<close> is 0 for a successor that is
  not a key of the outcome table, and \<^verbatim>\<open>get_transition_probs\<close> returns its four sums for
  any dictionary that holds the grid's states.
\<close>

theorem out_of_grid_queries:
  assumes "s \<notin> set (get_states (MDP_init nr nc rews terms pf ps rd))"
  shows "(rews s = None \<longrightarrow> get_reward (MDP_init nr nc rews terms pf ps rd) s = rd)
       \<and> (s \<notin> set terms \<longrightarrow> \<not> is_terminal (MDP_init nr nc rews terms pf ps rd) s)
       \<and> (s' \<notin> dom (succ_prob (MDP_init nr nc rews terms pf ps rd) s a) \<longrightarrow>
            get_transition_prob (MDP_init nr nc rews terms pf ps rd) s a s' = 0)
       \<and> ((\<forall>x\<in>set (get_states (MDP_init nr nc rews terms pf ps rd)). u x \<noteq> None) \<longrightarrow>
            (\<exists>eus. get_transition_probs (MDP_init nr nc rews terms pf ps rd) s u = Inr eus
                    \<and> length eus = 4))"
proof -
  let ?mdp = "MDP_init nr nc rews terms pf ps rd"
  have "\<exists>eus. get_transition_probs ?mdp s u = Inr eus \<and> length eus = 4"
    if "\<forall>x\<in>set (get_states ?mdp). u x \<noteq> None"
  proof -
    from that have "\<forall>x\<in>set (get_states ?mdp). u x = Some ((\<lambda>x. the (u x)) x)" by auto
    from get_transition_probs_eq [OF this, of s] show ?thesis by (simp add: get_actions_def)
  qed
  then show ?thesis
    by (auto simp: get_reward_def is_terminal_def get_transition_prob_def dd_get_def dom_def)
qed

theorem out_of_grid_queries_witness:
  "(5, 5) \<notin> set (get_states gridworld)
   \<and> get_reward gridworld (5, 5) = 0
   \<and> \<not> is_terminal gridworld (5, 5)
   \<and> get_transition_prob gridworld (5, 5) ''up'' (1, 1) = 0
   \<and> (\<exists>eus. get_transition_probs gridworld (5, 5) (init_utility gridworld) = Inr eus
             \<and> length eus = 4)"
proof -
  have g: "gridworld = MDP_init 3 2 [(1, 3) \<mapsto> - 2, (2, 3) \<mapsto> 2] [(1, 3), (2, 3)] (8 / 10) (1 / 10) 0"
    by (simp add: gridworld_def)
  have out: "(5, 5) \<notin> set (get_states gridworld)"
    by (simp add: g gridworld_states)
  have keys: "\<forall>x\<in>set (get_states gridworld). init_utility gridworld x \<noteq> None"
    by (simp add: init_utility_apply)
  have nodom: "(1, 1) \<notin> dom (succ_prob gridworld (5, 5) ''up'')"
    by (simp add: g succ_prob_def dd_set_def dd_add_def succ_up_def succ_right_def succ_left_def)
  from out_of_grid_queries [OF out [unfolded g], of "(1, 1)" "''up''" "init_utility gridworld"]
    out keys nodom
  show ?thesis unfolding g [symmetric] by simp
qed

subsection \<open>What value iteration returns\<close>












text \<open>
  \<^bold>\<open>C2\<close> (amended). On the corridor with \<open>gamma = 0.9\<close>, value iteration returns
  \<open>{(1, 1): 9, (2, 1): 10}\<close> for every \<open>epsilon\<close> with \<open>0 < epsilon \<le> 9\<close>.
\<close>

theorem corridor_converged:
  assumes "0 < epsilon" and "epsilon \<le> 9"
  shows "value_iteration corridor (9 / 10) epsilon = Some (Inr [(1, 1) \<mapsto> 9, (2, 1) \<mapsto> 10])"
  using assms by (rule corridor_run_small)

theorem corridor_converged_witness:
  "(0 :: real) < 1 / 100 \<and> (1 / 100 :: real) \<le> 9
   \<and> value_iteration corridor (9 / 10) (1 / 100) = Some (Inr [(1, 1) \<mapsto> 9, (2, 1) \<mapsto> 10])"
  using corridor_converged [of "1 / 100"] by simp

text \<open>
  For \<open>epsilon = 10\<close> the second sweep already has \<open>delta = 9 < epsilon\<close>, and the
  snapshot \<open>{(1, 1): 0, (2, 1): 10}\<close> is returned.
\<close>

theorem corridor_converged_counterexample:
  "(0 :: real) < 10
   \<and> value_iteration corridor (9 / 10) 10 = Some (Inr [(1, 1) \<mapsto> 0, (2, 1) \<mapsto> 10])
   \<and> ([(1, 1) \<mapsto> 0, (2, 1) \<mapsto> 10] :: utility) (1, 1) \<noteq> Some 9"
proof -
  have "value_iteration corridor (9 / 10) 10 = Some (Inr [(1, 1) \<mapsto> 0, (2, 1) \<mapsto> 10])"
    by (rule corridor_run_middle) simp_all
  then show ?thesis by simp
qed

end
